theory Spec2Isabelle
  imports Main "HOL-Library.Word"
begin

section \<open>gz-sim: the Server facade (src/Server.cc)\<close>

text \<open>
  The development embeds the public methods of \<^verbatim>\<open>gz::sim::Server\<close> as functions on
  the state held behind \<^verbatim>\<open>dataPtr\<close>. A method that mutates the server returns its
  C++ return value paired with the new state; a \<^verbatim>\<open>const\<close> query is a function of the
  state alone. \<^verbatim>\<open>std::optional<T>\<close> is \<open>T option\<close>, \<^verbatim>\<open>std::nullopt\<close> is \<open>None\<close>.
  Console output (\<^verbatim>\<open>gzmsg\<close>, \<^verbatim>\<open>gzwarn\<close>, \<^verbatim>\<open>gzerr\<close>) is not state of the server and
  is modelled only where the constructor leaves through an early return.
\<close>

subsection \<open>Scalar types\<close>

type_synonym Entity = "64 word"          \<comment> \<open>\<^verbatim>\<open>using Entity = uint64_t\<close>\<close>
type_synonym world_index = "32 word"     \<comment> \<open>\<^verbatim>\<open>const unsigned int _worldIndex\<close>\<close>
type_synonym iterations = "64 word"      \<comment> \<open>\<^verbatim>\<open>const uint64_t _iterations\<close>\<close>
type_synonym duration = "64 word"        \<comment> \<open>tick count of \<^verbatim>\<open>std::chrono::steady_clock::duration\<close>\<close>

text \<open>
  The two overloads of \<^verbatim>\<open>AddSystem\<close> take a \<^verbatim>\<open>SystemPluginPtr\<close> and a
  \<^verbatim>\<open>std::shared_ptr<System>\<close>; a handle is identified by a number.
\<close>

datatype system_handle = PluginSystem nat | SharedSystem nat

subsection \<open>The scene description (sdformat, external)\<close>

record Model =
  m_name :: string

record World =
  w_name :: string
  w_models :: "Model list"
  w_plugins :: "string list"

text \<open>
  \<^verbatim>\<open>sdf::Root\<close>: the worlds of the document, and the model of a document that holds a
  bare model (\<^verbatim>\<open>Root::Model()\<close> is \<^verbatim>\<open>nullptr\<close> when there is none).
\<close>

record Root =
  worlds :: "World list"
  root_model :: "Model option"

definition empty_Root :: Root where
  "empty_Root = \<lparr> worlds = [], root_model = None \<rparr>"

text \<open>\<^verbatim>\<open>Root::WorldByIndex(0)\<close>: \<^verbatim>\<open>nullptr\<close> when the root has no world.\<close>

definition WorldByIndex0 :: "Root \<Rightarrow> World option" where
  "WorldByIndex0 r = (case worlds r of [] \<Rightarrow> None | w # _ \<Rightarrow> Some w)"

text \<open>
  Modelled from the spec: the graph composition primitive \<^verbatim>\<open>AddChildModel(world, model)\<close>
  of the scene-description parser (\<^verbatim>\<open>sdf::World::AddModel\<close>, called on the pointer
  returned by \<^verbatim>\<open>WorldByIndex(0)\<close>): the model becomes a child of the first world.
\<close>

definition AddModel_world0 :: "Model \<Rightarrow> Root \<Rightarrow> Root" where
  "AddModel_world0 m r =
     (case worlds r of
        [] \<Rightarrow> r
      | w # ws \<Rightarrow> r\<lparr> worlds := w\<lparr> w_models := w_models w @ [m] \<rparr> # ws \<rparr>)"

subsection \<open>The per-world execution engine (SimulationRunner.hh, not part of Server.cc)\<close>

text \<open>
  Modelled from the spec: the class \<^verbatim>\<open>SimulationRunner\<close> is declared outside
  \<^verbatim>\<open>Server.cc\<close>. The record holds what the interface of section 6 of the specification
  lets the facade observe or set: \<^verbatim>\<open>SetPaused(bool)\<close>, \<^verbatim>\<open>Paused() -> bool\<close>,
  \<^verbatim>\<open>IterationCount() -> uint\<close>, \<^verbatim>\<open>EntityCount()/ModuleCount() -> size\<close>,
  \<^verbatim>\<open>HasEntity(name) -> bool\<close>, \<^verbatim>\<open>EntityByIdentifier(name) -> optional identifier\<close>,
  \<^verbatim>\<open>RequestRemoveEntity(identifier|name, recursive) -> bool\<close>,
  \<^verbatim>\<open>AddModule(handle) -> void\<close>, \<^verbatim>\<open>SetUpdatePeriod(duration)\<close>,
  \<^verbatim>\<open>SetNextStepBlockingPaused(bool)\<close>.
\<close>

record SimulationRunner =
  r_running :: bool
  r_paused :: bool
  r_nextStepBlockingPaused :: bool
  r_iterations :: "64 word"
  r_entities :: "(string \<times> Entity) list"
  r_systems :: "system_handle list"
  r_updatePeriod :: duration
  r_removeRequests :: "(Entity \<times> bool) list"

text \<open>Modelled from the spec: the engine's accessors and setters named above.\<close>

definition Runner_Running :: "SimulationRunner \<Rightarrow> bool" where
  "Runner_Running r = r_running r"

definition Runner_Paused :: "SimulationRunner \<Rightarrow> bool" where
  "Runner_Paused r = r_paused r"

definition Runner_SetPaused :: "bool \<Rightarrow> SimulationRunner \<Rightarrow> SimulationRunner" where
  "Runner_SetPaused p r = r\<lparr> r_paused := p \<rparr>"

definition Runner_SetNextStepAsBlockingPaused :: "bool \<Rightarrow> SimulationRunner \<Rightarrow> SimulationRunner" where
  "Runner_SetNextStepAsBlockingPaused b r = r\<lparr> r_nextStepBlockingPaused := b \<rparr>"

definition Runner_IterationCount :: "SimulationRunner \<Rightarrow> 64 word" where
  "Runner_IterationCount r = r_iterations r"

definition Runner_EntityCount :: "SimulationRunner \<Rightarrow> nat" where
  "Runner_EntityCount r = length (r_entities r)"

definition Runner_SystemCount :: "SimulationRunner \<Rightarrow> nat" where
  "Runner_SystemCount r = length (r_systems r)"

definition Runner_EntityByName :: "string \<Rightarrow> SimulationRunner \<Rightarrow> Entity option" where
  "Runner_EntityByName n r = map_of (r_entities r) n"

definition Runner_HasEntity :: "string \<Rightarrow> SimulationRunner \<Rightarrow> bool" where
  "Runner_HasEntity n r = (Runner_EntityByName n r \<noteq> None)"

definition Runner_RequestRemoveEntity_entity ::
    "Entity \<Rightarrow> bool \<Rightarrow> SimulationRunner \<Rightarrow> bool \<times> SimulationRunner" where
  "Runner_RequestRemoveEntity_entity e recursive r =
     (if e \<in> set (map snd (r_entities r))
      then (True, r\<lparr> r_removeRequests := r_removeRequests r @ [(e, recursive)] \<rparr>)
      else (False, r))"

definition Runner_RequestRemoveEntity_name ::
    "string \<Rightarrow> bool \<Rightarrow> SimulationRunner \<Rightarrow> bool \<times> SimulationRunner" where
  "Runner_RequestRemoveEntity_name n recursive r =
     (case Runner_EntityByName n r of
        None \<Rightarrow> (False, r)
      | Some e \<Rightarrow> Runner_RequestRemoveEntity_entity e recursive r)"

definition Runner_AddSystem :: "system_handle \<Rightarrow> SimulationRunner \<Rightarrow> SimulationRunner" where
  "Runner_AddSystem sys r = r\<lparr> r_systems := r_systems r @ [sys] \<rparr>"

definition Runner_SetUpdatePeriod :: "duration \<Rightarrow> SimulationRunner \<Rightarrow> SimulationRunner" where
  "Runner_SetUpdatePeriod d r = r\<lparr> r_updatePeriod := d \<rparr>"

definition Runner_Stop :: "SimulationRunner \<Rightarrow> SimulationRunner" where
  "Runner_Stop r = r\<lparr> r_running := False \<rparr>"

subsection \<open>The state behind \<open>dataPtr\<close> (ServerPrivate.hh)\<close>

datatype SourceType = kNone | kSdfRoot | kSdfString | kSdfFile

record ServerConfig =
  cfg_Source :: SourceType
  cfg_SdfRoot :: Root
  cfg_SdfString :: string
  cfg_SdfFile :: string
  cfg_ResourceCache :: string
  cfg_UpdatePeriod :: "duration option"
  cfg_UseLogRecord :: bool

text \<open>
  \<^verbatim>\<open>std::thread runThread\<close>: a default-constructed handle has the id
  \<^verbatim>\<open>std::thread::id()\<close>; a handle assigned from \<^verbatim>\<open>std::thread(&ServerPrivate::Run, ...)\<close>
  keeps another id until it is joined, also after its body has returned.
\<close>

datatype run_thread = NotAThread | BodyRunning iterations | BodyReturned

text \<open>
  The fields of \<^verbatim>\<open>ServerPrivate\<close> that \<^verbatim>\<open>Server.cc\<close> reads or writes. \<open>sigInitialized\<close>
  is the answer of \<^verbatim>\<open>sigHandler.Initialized()\<close>. \<open>threadsCreated\<close> is a history
  variable: it counts the evaluations of the \<^verbatim>\<open>std::thread\<close> constructor at line 241.
\<close>

record ServerPrivate =
  config :: ServerConfig
  sdfRoot :: Root
  simRunners :: "SimulationRunner list"
  running :: bool
  sigInitialized :: bool
  runThread :: run_thread
  threadsCreated :: nat

subsection \<open>Per-world forwarding (Server.cc, lines 266-421)\<close>

text \<open>
  Every method compares \<^verbatim>\<open>_worldIndex < this->dataPtr->simRunners.size()\<close>; the
  \<^verbatim>\<open>unsigned int\<close> is converted to \<^verbatim>\<open>size_t\<close>, so the comparison is on \<open>unat\<close>.
  \<open>update_runner\<close> writes the runner that \<^verbatim>\<open>simRunners[_worldIndex]\<close> points to.
\<close>

definition in_range :: "world_index \<Rightarrow> ServerPrivate \<Rightarrow> bool" where
  "in_range i s = (unat i < length (simRunners s))"

definition runner_at :: "world_index \<Rightarrow> ServerPrivate \<Rightarrow> SimulationRunner" where
  "runner_at i s = simRunners s ! unat i"

definition update_runner :: "world_index \<Rightarrow> SimulationRunner \<Rightarrow> ServerPrivate \<Rightarrow> ServerPrivate" where
  "update_runner i r s = s\<lparr> simRunners := (simRunners s)[unat i := r] \<rparr>"

definition SetUpdatePeriod :: "duration \<Rightarrow> world_index \<Rightarrow> ServerPrivate \<Rightarrow> ServerPrivate" where
  "SetUpdatePeriod d i s =
     (if in_range i s then update_runner i (Runner_SetUpdatePeriod d (runner_at i s)) s
      else s)"

definition Running :: "ServerPrivate \<Rightarrow> bool" where
  "Running s = running s"

definition Running_world :: "world_index \<Rightarrow> ServerPrivate \<Rightarrow> bool option" where
  "Running_world i s =
     (if in_range i s then Some (Runner_Running (runner_at i s)) else None)"

definition SetPaused :: "bool \<Rightarrow> world_index \<Rightarrow> ServerPrivate \<Rightarrow> bool \<times> ServerPrivate" where
  "SetPaused p i s =
     (if in_range i s then (True, update_runner i (Runner_SetPaused p (runner_at i s)) s)
      else (False, s))"

definition Paused :: "world_index \<Rightarrow> ServerPrivate \<Rightarrow> bool option" where
  "Paused i s =
     (if in_range i s then Some (Runner_Paused (runner_at i s)) else None)"

definition IterationCount :: "world_index \<Rightarrow> ServerPrivate \<Rightarrow> 64 word option" where
  "IterationCount i s =
     (if in_range i s then Some (Runner_IterationCount (runner_at i s)) else None)"

definition EntityCount :: "world_index \<Rightarrow> ServerPrivate \<Rightarrow> nat option" where
  "EntityCount i s =
     (if in_range i s then Some (Runner_EntityCount (runner_at i s)) else None)"

definition SystemCount :: "world_index \<Rightarrow> ServerPrivate \<Rightarrow> nat option" where
  "SystemCount i s =
     (if in_range i s then Some (Runner_SystemCount (runner_at i s)) else None)"

text \<open>
  Both overloads of \<^verbatim>\<open>AddSystem\<close> have the same body; the handle records which one
  was called. The test of \<^verbatim>\<open>running\<close> comes first.
\<close>

definition AddSystem :: "system_handle \<Rightarrow> world_index \<Rightarrow> ServerPrivate \<Rightarrow> bool option \<times> ServerPrivate" where
  "AddSystem sys i s =
     (if running s then (Some False, s)
      else if in_range i s
      then (Some True, update_runner i (Runner_AddSystem sys (runner_at i s)) s)
      else (None, s))"

definition AddSystem_plugin :: "nat \<Rightarrow> world_index \<Rightarrow> ServerPrivate \<Rightarrow> bool option \<times> ServerPrivate" where
  "AddSystem_plugin p i s = AddSystem (PluginSystem p) i s"

definition AddSystem_shared :: "nat \<Rightarrow> world_index \<Rightarrow> ServerPrivate \<Rightarrow> bool option \<times> ServerPrivate" where
  "AddSystem_shared p i s = AddSystem (SharedSystem p) i s"

definition HasEntity :: "string \<Rightarrow> world_index \<Rightarrow> ServerPrivate \<Rightarrow> bool" where
  "HasEntity n i s =
     (if in_range i s then Runner_HasEntity n (runner_at i s) else False)"

definition EntityByName :: "string \<Rightarrow> world_index \<Rightarrow> ServerPrivate \<Rightarrow> Entity option" where
  "EntityByName n i s =
     (if in_range i s then Runner_EntityByName n (runner_at i s) else None)"

definition RequestRemoveEntity_name ::
    "string \<Rightarrow> bool \<Rightarrow> world_index \<Rightarrow> ServerPrivate \<Rightarrow> bool \<times> ServerPrivate" where
  "RequestRemoveEntity_name n recursive i s =
     (if in_range i s
      then (case Runner_RequestRemoveEntity_name n recursive (runner_at i s) of
              (b, r) \<Rightarrow> (b, update_runner i r s))
      else (False, s))"

definition RequestRemoveEntity_entity ::
    "Entity \<Rightarrow> bool \<Rightarrow> world_index \<Rightarrow> ServerPrivate \<Rightarrow> bool \<times> ServerPrivate" where
  "RequestRemoveEntity_entity e recursive i s =
     (if in_range i s
      then (case Runner_RequestRemoveEntity_entity e recursive (runner_at i s) of
              (b, r) \<Rightarrow> (b, update_runner i r s))
      else (False, s))"

subsection \<open>Collaborators outside Server.cc\<close>

text \<open>
  What the constructor and \<^verbatim>\<open>Run\<close> obtain from code that is not in \<^verbatim>\<open>Server.cc\<close> is a
  parameter of the model: the path-resolution helper \<^verbatim>\<open>resolveSdfWorldFile\<close>
  (\<^verbatim>\<open>gz/sim/Util.hh\<close>; the empty string means not found), the sdformat parser
  (\<^verbatim>\<open>Root::Load\<close>, \<^verbatim>\<open>Root::LoadSdfString\<close>, \<^verbatim>\<open>Root::UpdateGraphs\<close>; an \<^verbatim>\<open>sdf::Error\<close> is
  a string), the answer of \<^verbatim>\<open>sigHandler.Initialized()\<close>, and the opaque per-world
  engine: its constructor from a world and its run loop \<^verbatim>\<open>SimulationRunner::Run\<close>,
  whose result is \<open>None\<close> when the loop never exits without outside help.
\<close>

record Externals =
  resolveSdfWorldFile :: "string \<Rightarrow> string \<Rightarrow> string"
  sdf_Load :: "string \<Rightarrow> string list \<times> Root"
  sdf_LoadSdfString :: "string \<Rightarrow> string list \<times> Root"
  sdf_UpdateGraphs :: "Root \<Rightarrow> string list"
  sigHandler_Initialized :: bool
  Runner_create :: "World \<Rightarrow> SimulationRunner"
  Runner_Run :: "iterations \<Rightarrow> SimulationRunner \<Rightarrow> (bool \<times> SimulationRunner) option"

subsection \<open>Run, RunOnce and Stop (Server.cc, lines 208-264 and 424-427)\<close>

text \<open>
  The range-based \<^verbatim>\<open>for\<close> over \<^verbatim>\<open>simRunners\<close> that calls one mutator on every runner.
\<close>

primrec for_each :: "('a \<Rightarrow> 'a) \<Rightarrow> 'a list \<Rightarrow> 'a list" where
  "for_each f [] = []"
| "for_each f (r # rs) = f r # for_each f rs"

text \<open>The run loops of all runners; \<open>None\<close> as soon as one of them never exits.\<close>

primrec run_each ::
    "(SimulationRunner \<Rightarrow> (bool \<times> SimulationRunner) option) \<Rightarrow> SimulationRunner list
     \<Rightarrow> (bool \<times> SimulationRunner list) option" where
  "run_each f [] = Some (True, [])"
| "run_each f (r # rs) =
     (case f r of
        None \<Rightarrow> None
      | Some (b, r') \<Rightarrow>
          (case run_each f rs of
             None \<Rightarrow> None
           | Some (bs, rs') \<Rightarrow> Some (b \<and> bs, r' # rs')))"

text \<open>
  Modelled from the spec: \<^verbatim>\<open>ServerPrivate::Run(iterations)\<close> is defined outside
  \<^verbatim>\<open>Server.cc\<close>. Section 4.2, step 4: execute the run loop synchronously in the
  caller's thread for \<^verbatim>\<open>iterationCount\<close> steps and transition to \<^verbatim>\<open>Running\<close> for the
  duration; returns only after the loop exits. The result is what the engines report.
\<close>

definition ServerPrivate_Run ::
    "Externals \<Rightarrow> iterations \<Rightarrow> ServerPrivate \<Rightarrow> (bool \<times> ServerPrivate) option" where
  "ServerPrivate_Run ext n s =
     (let s1 = s\<lparr> running := True \<rparr> in
      case run_each (Runner_Run ext n) (simRunners s1) of
        None \<Rightarrow> None
      | Some (res, rs) \<Rightarrow> Some (res, s1\<lparr> simRunners := rs, running := False \<rparr>))"

text \<open>
  \<^verbatim>\<open>Server::Run\<close>. The result is \<open>None\<close> when a blocking call never returns. In the
  non-blocking branch the thread is created at line 241 and the caller leaves
  \<^verbatim>\<open>cond.wait\<close> (line 247) only in a state where \<^verbatim>\<open>running\<close> holds, which the body of
  the thread has set; that state is the one returned. The later return of the body is
  the separate step \<open>runThread_body_returns\<close>, which may come at any time after the
  call has returned (the comment at lines 243-246: with a small number of iterations the
  run thread may complete early). A caller that is never woken is not represented: the
  branch describes a call that returns.
\<close>

definition Run ::
    "Externals \<Rightarrow> bool \<Rightarrow> iterations \<Rightarrow> bool \<Rightarrow> ServerPrivate \<Rightarrow> (bool \<times> ServerPrivate) option" where
  "Run ext blocking n paused s =
     (let s1 = s\<lparr> simRunners := for_each (Runner_SetPaused paused) (simRunners s) \<rparr> in
      if \<not> sigInitialized s1 then Some (False, s1)
      else if running s1 then Some (False, s1)
      else if blocking then ServerPrivate_Run ext n s1
      else if runThread s1 = NotAThread
      then Some (True, s1\<lparr> runThread := BodyRunning n, running := True,
                          threadsCreated := Suc (threadsCreated s1) \<rparr>)
      else Some (False, s1))"

text \<open>
  Modelled from the spec: the rest of the body of the background thread
  (\<^verbatim>\<open>ServerPrivate::Run(iterations, &cond)\<close>) after it has marked \<^verbatim>\<open>Running\<close> and
  signalled: it performs the same loop as a blocking run and leaves \<^verbatim>\<open>Running\<close>. The
  step is possible only while the body is running and its loop exits.
\<close>

definition runThread_body_returns :: "Externals \<Rightarrow> ServerPrivate \<Rightarrow> ServerPrivate option" where
  "runThread_body_returns ext s =
     (case runThread s of
        BodyRunning n \<Rightarrow>
          (case run_each (Runner_Run ext n) (simRunners s) of
             None \<Rightarrow> None
           | Some (res, rs) \<Rightarrow>
               Some (s\<lparr> simRunners := rs, running := False, runThread := BodyReturned \<rparr>))
      | _ \<Rightarrow> None)"

definition RunOnce :: "Externals \<Rightarrow> bool \<Rightarrow> ServerPrivate \<Rightarrow> (bool \<times> ServerPrivate) option" where
  "RunOnce ext paused s =
     Run ext True 1 paused
       (if paused
        then s\<lparr> simRunners := for_each (Runner_SetNextStepAsBlockingPaused True) (simRunners s) \<rparr>
        else s)"

text \<open>
  The description of \<^verbatim>\<open>RunOnce\<close> in section 4.2 of the specification, word by word:
  if \<^verbatim>\<open>paused\<close> is requested, first mark every world's next step as a blocking-paused
  step, then delegate to a blocking \<^verbatim>\<open>Run\<close> with \<^verbatim>\<open>iterationCount = 1\<close>.
\<close>

definition mark_next_step_blocking_paused :: "ServerPrivate \<Rightarrow> ServerPrivate" where
  "mark_next_step_blocking_paused s =
     s\<lparr> simRunners := map (\<lambda>r. r\<lparr> r_nextStepBlockingPaused := True \<rparr>) (simRunners s) \<rparr>"

definition RunOnce_spec :: "Externals \<Rightarrow> bool \<Rightarrow> ServerPrivate \<Rightarrow> (bool \<times> ServerPrivate) option" where
  "RunOnce_spec ext paused s =
     (if paused then Run ext True 1 True (mark_next_step_blocking_paused s)
      else Run ext True 1 False s)"

text \<open>
  Modelled from the spec: \<^verbatim>\<open>Server::Stop\<close> only calls \<^verbatim>\<open>ServerPrivate::Stop\<close>, which is
  defined outside \<^verbatim>\<open>Server.cc\<close>. Section 4.2: \<^verbatim>\<open>Stop()\<close> requests every world runner to
  halt at the next safe boundary, is idempotent and does not wait; the state leaves
  \<^verbatim>\<open>Running\<close>, so that callers can retry a rejected mutation after stop.
\<close>

definition Stop :: "ServerPrivate \<Rightarrow> ServerPrivate" where
  "Stop s = s\<lparr> running := False, simRunners := for_each Runner_Stop (simRunners s) \<rparr>"

subsection \<open>The constructor (Server.cc, lines 59-202)\<close>

text \<open>\<^verbatim>\<open>DefaultWorld::World()\<close>, lines 46-55.\<close>

definition DefaultWorld :: string where
  "DefaultWorld =
     ''<?xml version='1.0'?>'' @ ''<sdf version='1.6'>'' @ ''<world name='default'>'' @
     ''</world>'' @ ''</sdf>''"

text \<open>
  How the constructor is left: through the \<^verbatim>\<open>return\<close> at line 133 (with the file name
  of the message \<^verbatim>\<open>Failed to find world [...]\<close>), at line 156, at line 182 (with the
  errors written to \<^verbatim>\<open>gzerr\<close>), or at its end.
\<close>

datatype ctor_exit =
    WorldNotFound string
  | NoDefaultWorld
  | SdfErrors "string list"
  | Constructed

text \<open>
  Modelled from the spec: the value of \<^verbatim>\<open>new ServerPrivate\<close> (the member initialisers
  are in \<^verbatim>\<open>ServerPrivate.hh\<close>), with the assignment of line 80. Section 3: the run
  state starts as \<^verbatim>\<open>NotStarted\<close>, runners are created during construction only, and a
  background thread handle is present only after a non-blocking \<^verbatim>\<open>Run\<close>.
\<close>

definition new_ServerPrivate :: "Externals \<Rightarrow> ServerConfig \<Rightarrow> ServerPrivate" where
  "new_ServerPrivate ext cfg =
     \<lparr> config = cfg, sdfRoot = empty_Root, simRunners = [], running = False,
       sigInitialized = sigHandler_Initialized ext, runThread = NotAThread,
       threadsCreated = 0 \<rparr>"

text \<open>
  The \<^verbatim>\<open>switch\<close> of lines 98-176. \<open>Inl\<close> is an early \<^verbatim>\<open>return\<close> from inside the switch;
  \<open>Inr\<close> carries the value of \<^verbatim>\<open>errors\<close> at line 178.
\<close>

definition load_source ::
    "Externals \<Rightarrow> ServerConfig \<Rightarrow> ServerPrivate
     \<Rightarrow> (ctor_exit \<times> ServerPrivate) + (string list \<times> ServerPrivate)" where
  "load_source ext cfg s =
     (case cfg_Source cfg of
        kSdfRoot \<Rightarrow> Inr ([], s\<lparr> sdfRoot := cfg_SdfRoot cfg \<rparr>)
      | kSdfString \<Rightarrow>
          (case sdf_LoadSdfString ext (cfg_SdfString cfg) of
             (errors, root) \<Rightarrow> Inr (errors, s\<lparr> sdfRoot := root \<rparr>))
      | kSdfFile \<Rightarrow>
          (let filePath = resolveSdfWorldFile ext (cfg_SdfFile cfg) (cfg_ResourceCache cfg) in
           if filePath = [] then Inl (WorldNotFound (cfg_SdfFile cfg), s)
           else
             (case sdf_Load ext filePath of
                (errors, fileRoot) \<Rightarrow>
                  if errors = [] then
                    (case root_model fileRoot of
                       None \<Rightarrow> Inr (errors, s\<lparr> sdfRoot := fileRoot \<rparr>)
                     | Some m \<Rightarrow>
                         (case sdf_LoadSdfString ext DefaultWorld of
                            (errors2, root2) \<Rightarrow>
                              (case WorldByIndex0 root2 of
                                 None \<Rightarrow> Inl (NoDefaultWorld, s\<lparr> sdfRoot := root2 \<rparr>)
                               | Some w \<Rightarrow>
                                   (let root3 = AddModel_world0 m root2 in
                                    if errors2 = []
                                    then Inr (sdf_UpdateGraphs ext root3, s\<lparr> sdfRoot := root3 \<rparr>)
                                    else Inr (errors2, s\<lparr> sdfRoot := root3 \<rparr>)))))
                  else Inr (errors, s)))
      | kNone \<Rightarrow>
          (case sdf_LoadSdfString ext DefaultWorld of
             (errors, root) \<Rightarrow> Inr (errors, s\<lparr> sdfRoot := root \<rparr>)))"

text \<open>
  Modelled from the spec: \<^verbatim>\<open>ServerPrivate::AddRecordPlugin\<close> and
  \<^verbatim>\<open>ServerPrivate::CreateEntities\<close> are defined outside \<^verbatim>\<open>Server.cc\<close>. Section 3: the
  configuration has a flag requesting that a recording extension module be
  auto-attached; there is one execution-engine handle per world of the resolved scene,
  in scene-graph order.
\<close>

definition AddRecordPlugin :: "ServerPrivate \<Rightarrow> ServerPrivate" where
  "AddRecordPlugin s =
     s\<lparr> sdfRoot := (sdfRoot s)\<lparr> worlds :=
          map (\<lambda>w. w\<lparr> w_plugins := w_plugins w @ [''record''] \<rparr>) (worlds (sdfRoot s)) \<rparr> \<rparr>"

definition CreateEntities :: "Externals \<Rightarrow> ServerPrivate \<Rightarrow> ServerPrivate" where
  "CreateEntities ext s =
     s\<lparr> simRunners := simRunners s @ map (Runner_create ext) (worlds (sdfRoot s)) \<rparr>"

text \<open>
  The constructor. \<^verbatim>\<open>this->SetUpdatePeriod(_config.UpdatePeriod().value())\<close> uses the
  default world index 0. The fuel client, the resource callbacks and
  \<^verbatim>\<open>SetupTransport\<close> touch no field of the state modelled here.
\<close>

definition Server_ctor :: "Externals \<Rightarrow> ServerConfig \<Rightarrow> ctor_exit \<times> ServerPrivate" where
  "Server_ctor ext cfg =
     (case load_source ext cfg (new_ServerPrivate ext cfg) of
        Inl early \<Rightarrow> early
      | Inr (errors, s1) \<Rightarrow>
          if errors \<noteq> [] then (SdfErrors errors, s1)
          else
            (let s2 = (if cfg_UseLogRecord cfg then AddRecordPlugin s1 else s1);
                 s3 = CreateEntities ext s2;
                 s4 = (case cfg_UpdatePeriod cfg of
                         None \<Rightarrow> s3
                       | Some d \<Rightarrow> SetUpdatePeriod d 0 s3)
             in (Constructed, s4)))"

subsection \<open>The lifetime of an instance\<close>

text \<open>
  The calls that can change the state of a constructed server, and the return of the
  body of the background thread. The \<^verbatim>\<open>const\<close> queries change nothing and are left out.
\<close>

datatype api_call =
    Call_Run bool iterations bool
  | Call_RunOnce bool
  | Call_Stop
  | Call_SetUpdatePeriod duration world_index
  | Call_SetPaused bool world_index
  | Call_AddSystem system_handle world_index
  | Call_RequestRemoveEntity_name string bool world_index
  | Call_RequestRemoveEntity_entity Entity bool world_index
  | Thread_body_returns

text \<open>The state after one call; \<open>None\<close> when the call never returns or the step cannot occur.\<close>

fun invoke :: "Externals \<Rightarrow> api_call \<Rightarrow> ServerPrivate \<Rightarrow> ServerPrivate option" where
  "invoke ext (Call_Run blocking n paused) s = map_option snd (Run ext blocking n paused s)"
| "invoke ext (Call_RunOnce paused) s = map_option snd (RunOnce ext paused s)"
| "invoke ext Call_Stop s = Some (Stop s)"
| "invoke ext (Call_SetUpdatePeriod d i) s = Some (SetUpdatePeriod d i s)"
| "invoke ext (Call_SetPaused p i) s = Some (snd (SetPaused p i s))"
| "invoke ext (Call_AddSystem sys i) s = Some (snd (AddSystem sys i s))"
| "invoke ext (Call_RequestRemoveEntity_name n recursive i) s =
     Some (snd (RequestRemoveEntity_name n recursive i s))"
| "invoke ext (Call_RequestRemoveEntity_entity e recursive i) s =
     Some (snd (RequestRemoveEntity_entity e recursive i s))"
| "invoke ext Thread_body_returns s = runThread_body_returns ext s"

fun invoke_all :: "Externals \<Rightarrow> api_call list \<Rightarrow> ServerPrivate \<Rightarrow> ServerPrivate option" where
  "invoke_all ext [] s = Some s"
| "invoke_all ext (c # cs) s =
     (case invoke ext c s of None \<Rightarrow> None | Some s' \<Rightarrow> invoke_all ext cs s')"

text \<open>
  The history variable agrees with the thread handle: a thread has been created exactly
  when the handle no longer has the default id.
\<close>

definition one_thread :: "ServerPrivate \<Rightarrow> bool" where
  "one_thread s = (threadsCreated s = (if runThread s = NotAThread then 0 else 1))"

subsection \<open>A concrete environment and concrete servers\<close>

text \<open>
  An engine whose run loop performs the requested number of iterations and never exits
  when that number is 0, a parser that knows the default world and one file holding the
  bare model \<open>box\<close>, and a resolver that finds only that file.
\<close>

definition demo_runner :: "World \<Rightarrow> SimulationRunner" where
  "demo_runner w =
     \<lparr> r_running = False, r_paused = False, r_nextStepBlockingPaused = False,
       r_iterations = 0,
       r_entities = (w_name w, 1) #
          zip (map m_name (w_models w)) (map word_of_nat [2 ..< 2 + length (w_models w)]),
       r_systems = [], r_updatePeriod = 1000, r_removeRequests = [] \<rparr>"

definition demo_loop :: "iterations \<Rightarrow> SimulationRunner \<Rightarrow> (bool \<times> SimulationRunner) option" where
  "demo_loop n r =
     (if n = 0 then None else Some (True, r\<lparr> r_iterations := r_iterations r + n \<rparr>))"

definition demo_world :: World where
  "demo_world = \<lparr> w_name = ''default'', w_models = [], w_plugins = [] \<rparr>"

definition demo_world_root :: Root where
  "demo_world_root = \<lparr> worlds = [demo_world], root_model = None \<rparr>"

definition demo_model_root :: Root where
  "demo_model_root = \<lparr> worlds = [], root_model = Some \<lparr> m_name = ''box'' \<rparr> \<rparr>"

definition demo_ext :: Externals where
  "demo_ext =
     \<lparr> resolveSdfWorldFile = (\<lambda>f cache. if f = ''box.sdf'' then ''/models/box.sdf'' else []),
       sdf_Load = (\<lambda>p. if p = ''/models/box.sdf'' then ([], demo_model_root)
                        else ([''unable to read file''], empty_Root)),
       sdf_LoadSdfString = (\<lambda>t. if t = DefaultWorld then ([], demo_world_root)
                                 else ([''unable to parse''], empty_Root)),
       sdf_UpdateGraphs = (\<lambda>r. []),
       sigHandler_Initialized = True,
       Runner_create = demo_runner,
       Runner_Run = demo_loop \<rparr>"

definition demo_config :: ServerConfig where
  "demo_config =
     \<lparr> cfg_Source = kNone, cfg_SdfRoot = empty_Root, cfg_SdfString = [], cfg_SdfFile = [],
       cfg_ResourceCache = [], cfg_UpdatePeriod = None, cfg_UseLogRecord = False \<rparr>"

text \<open>The server that the constructor builds from \<open>demo_config\<close>: one world, not running.\<close>

definition demo_server :: ServerPrivate where
  "demo_server =
     \<lparr> config = demo_config, sdfRoot = demo_world_root, simRunners = [demo_runner demo_world],
       running = False, sigInitialized = True, runThread = NotAThread, threadsCreated = 0 \<rparr>"

text \<open>The same server in a process whose signal handlers could not be created.\<close>

definition no_signal_server :: ServerPrivate where
  "no_signal_server = demo_server\<lparr> sigInitialized := False \<rparr>"

text \<open>The same server while a run is in progress.\<close>

definition running_server :: ServerPrivate where
  "running_server = demo_server\<lparr> running := True \<rparr>"

text \<open>A configuration naming a file that the resolver does not find, and one naming the model file.\<close>

definition missing_config :: ServerConfig where
  "missing_config = demo_config\<lparr> cfg_Source := kSdfFile, cfg_SdfFile := ''nope.sdf'' \<rparr>"

definition box_config :: ServerConfig where
  "box_config = demo_config\<lparr> cfg_Source := kSdfFile, cfg_SdfFile := ''box.sdf'' \<rparr>"

text \<open>The environment in which the re-validation of the composed graph reports an error.\<close>

definition failing_graph_ext :: Externals where
  "failing_graph_ext = demo_ext\<lparr> sdf_UpdateGraphs := (\<lambda>r. [''graph error'']) \<rparr>"

text \<open>
  Two non-blocking runs, the return of the thread's body, and a third non-blocking run;
  and the state they lead to from \<open>demo_server\<close>.
\<close>

definition three_runs :: "api_call list" where
  "three_runs = [Call_Run False 3 False, Call_Run False 3 False, Thread_body_returns,
                 Call_Run False 3 True]"

definition after_three_runs :: ServerPrivate where
  "after_three_runs =
     demo_server\<lparr> simRunners := [(demo_runner demo_world)\<lparr> r_paused := True, r_iterations := 3 \<rparr>],
                  runThread := BodyReturned, threadsCreated := 1 \<rparr>"

text \<open>Calls on the server whose world file was not found, and the state they lead to.\<close>

definition calls_after_failure :: "api_call list" where
  "calls_after_failure = [Call_Run False 2 False, Call_AddSystem (SharedSystem 1) 0, Call_Stop]"

definition after_failure :: ServerPrivate where
  "after_failure =
     (new_ServerPrivate demo_ext missing_config)\<lparr> runThread := BodyRunning 2, threadsCreated := 1 \<rparr>"

text \<open>The state in which a non-blocking run of two iterations on \<open>demo_server\<close> returns.\<close>

definition started_server :: ServerPrivate where
  "started_server = demo_server\<lparr> runThread := BodyRunning 2, running := True, threadsCreated := 1 \<rparr>"

section \<open>Properties\<close>

subsection \<open>Loops and the size of the runner set\<close>

lemma for_each_map: "for_each f rs = map f rs"
  by (induction rs) simp_all

lemma length_for_each: "length (for_each f rs) = length rs"
  by (simp add: for_each_map)

lemma run_each_length: "run_each f rs = Some (b, rs') \<Longrightarrow> length rs' = length rs"
proof (induction rs arbitrary: b rs')
  case Nil
  then show ?case by simp
next
  case (Cons r rs)
  then show ?case by (auto split: option.splits prod.splits)
qed

lemma Run_length:
  "Run ext blocking n paused s = Some (b, s') \<Longrightarrow> length (simRunners s') = length (simRunners s)"
  by (auto simp: Run_def Let_def ServerPrivate_Run_def length_for_each
      split: if_splits option.splits prod.splits dest: run_each_length)

lemma RunOnce_length:
  "RunOnce ext paused s = Some (b, s') \<Longrightarrow> length (simRunners s') = length (simRunners s)"
  by (auto simp: RunOnce_def length_for_each split: if_splits dest!: Run_length)

text \<open>No call adds or removes a runner: the size of the set is fixed after construction.\<close>

lemma invoke_length:
  "invoke ext c s = Some s' \<Longrightarrow> length (simRunners s') = length (simRunners s)"
proof (cases c)
  case (Call_Run blocking n paused)
  then show "invoke ext c s = Some s' \<Longrightarrow> ?thesis" by (auto dest: Run_length)
next
  case (Call_RunOnce paused)
  then show "invoke ext c s = Some s' \<Longrightarrow> ?thesis" by (auto dest: RunOnce_length)
next
  case Call_Stop
  then show "invoke ext c s = Some s' \<Longrightarrow> ?thesis" by (auto simp: Stop_def length_for_each)
next
  case (Call_SetUpdatePeriod d i)
  then show "invoke ext c s = Some s' \<Longrightarrow> ?thesis"
    by (auto simp: SetUpdatePeriod_def update_runner_def split: if_splits)
next
  case (Call_SetPaused p i)
  then show "invoke ext c s = Some s' \<Longrightarrow> ?thesis"
    by (auto simp: SetPaused_def update_runner_def split: if_splits)
next
  case (Call_AddSystem sys i)
  then show "invoke ext c s = Some s' \<Longrightarrow> ?thesis"
    by (auto simp: AddSystem_def update_runner_def split: if_splits)
next
  case (Call_RequestRemoveEntity_name n recursive i)
  then show "invoke ext c s = Some s' \<Longrightarrow> ?thesis"
    by (auto simp: RequestRemoveEntity_name_def update_runner_def split: if_splits prod.splits)
next
  case (Call_RequestRemoveEntity_entity e recursive i)
  then show "invoke ext c s = Some s' \<Longrightarrow> ?thesis"
    by (auto simp: RequestRemoveEntity_entity_def update_runner_def split: if_splits prod.splits)
next
  case Thread_body_returns
  then show "invoke ext c s = Some s' \<Longrightarrow> ?thesis"
    by (auto simp: runThread_body_returns_def split: run_thread.splits option.splits
        dest: run_each_length)
qed

lemma invoke_all_length:
  "invoke_all ext cs s = Some s' \<Longrightarrow> length (simRunners s') = length (simRunners s)"
proof (induction cs arbitrary: s)
  case Nil
  then show ?case by simp
next
  case (Cons c cs)
  then show ?case by (auto split: option.splits dest: invoke_length)
qed

subsection \<open>The thread handle\<close>

lemma Run_one_thread:
  "Run ext blocking n paused s = Some (b, s') \<Longrightarrow> one_thread s \<Longrightarrow> one_thread s'"
  by (auto simp: Run_def Let_def ServerPrivate_Run_def one_thread_def
      split: if_splits option.splits prod.splits)

lemma RunOnce_one_thread:
  assumes r: "RunOnce ext paused s = Some (b, s')" and o: "one_thread s"
  shows "one_thread s'"
proof (cases paused)
  case True
  with r have "Run ext True 1 True
      (s\<lparr> simRunners := for_each (Runner_SetNextStepAsBlockingPaused True) (simRunners s) \<rparr>)
      = Some (b, s')" by (simp add: RunOnce_def)
  moreover from o have "one_thread
      (s\<lparr> simRunners := for_each (Runner_SetNextStepAsBlockingPaused True) (simRunners s) \<rparr>)"
    by (simp add: one_thread_def)
  ultimately show ?thesis by (rule Run_one_thread)
next
  case False
  with r have "Run ext True 1 False s = Some (b, s')" by (simp add: RunOnce_def)
  then show ?thesis using o by (rule Run_one_thread)
qed

lemma invoke_one_thread:
  "invoke ext c s = Some s' \<Longrightarrow> one_thread s \<Longrightarrow> one_thread s'"
proof (cases c)
  case (Call_Run blocking n paused)
  then show "invoke ext c s = Some s' \<Longrightarrow> one_thread s \<Longrightarrow> one_thread s'"
    by (auto dest: Run_one_thread)
next
  case (Call_RunOnce paused)
  then show "invoke ext c s = Some s' \<Longrightarrow> one_thread s \<Longrightarrow> one_thread s'"
    by (auto dest: RunOnce_one_thread)
next
  case Call_Stop
  then show "invoke ext c s = Some s' \<Longrightarrow> one_thread s \<Longrightarrow> one_thread s'"
    by (auto simp: Stop_def one_thread_def)
next
  case (Call_SetUpdatePeriod d i)
  then show "invoke ext c s = Some s' \<Longrightarrow> one_thread s \<Longrightarrow> one_thread s'"
    by (auto simp: SetUpdatePeriod_def update_runner_def one_thread_def split: if_splits)
next
  case (Call_SetPaused p i)
  then show "invoke ext c s = Some s' \<Longrightarrow> one_thread s \<Longrightarrow> one_thread s'"
    by (auto simp: SetPaused_def update_runner_def one_thread_def split: if_splits)
next
  case (Call_AddSystem sys i)
  then show "invoke ext c s = Some s' \<Longrightarrow> one_thread s \<Longrightarrow> one_thread s'"
    by (auto simp: AddSystem_def update_runner_def one_thread_def split: if_splits)
next
  case (Call_RequestRemoveEntity_name n recursive i)
  then show "invoke ext c s = Some s' \<Longrightarrow> one_thread s \<Longrightarrow> one_thread s'"
    by (auto simp: RequestRemoveEntity_name_def update_runner_def one_thread_def
        split: prod.splits if_splits)
next
  case (Call_RequestRemoveEntity_entity e recursive i)
  then show "invoke ext c s = Some s' \<Longrightarrow> one_thread s \<Longrightarrow> one_thread s'"
    by (auto simp: RequestRemoveEntity_entity_def update_runner_def one_thread_def
        split: prod.splits if_splits)
next
  case Thread_body_returns
  then show "invoke ext c s = Some s' \<Longrightarrow> one_thread s \<Longrightarrow> one_thread s'"
    by (auto simp: runThread_body_returns_def one_thread_def
        split: run_thread.splits option.splits)
qed

lemma invoke_all_one_thread:
  "invoke_all ext cs s = Some s' \<Longrightarrow> one_thread s \<Longrightarrow> one_thread s'"
proof (induction cs arbitrary: s)
  case Nil
  then show ?case by simp
next
  case (Cons c cs)
  then show ?case by (auto split: option.splits dest: invoke_one_thread)
qed

lemma load_source_thread_fields:
  "load_source ext cfg s = Inl (x, s') \<Longrightarrow>
     runThread s' = runThread s \<and> threadsCreated s' = threadsCreated s"
  "load_source ext cfg s = Inr (es, s') \<Longrightarrow>
     runThread s' = runThread s \<and> threadsCreated s' = threadsCreated s"
  by (auto simp: load_source_def Let_def
      split: SourceType.splits prod.splits if_splits option.splits)

lemma ctor_one_thread: "one_thread (snd (Server_ctor ext cfg))"
proof (cases "load_source ext cfg (new_ServerPrivate ext cfg)")
  case (Inl early)
  then show ?thesis
    using load_source_thread_fields(1)
      [of ext cfg "new_ServerPrivate ext cfg" "fst early" "snd early"]
    by (simp add: Server_ctor_def one_thread_def new_ServerPrivate_def)
next
  case (Inr p)
  then show ?thesis
    using load_source_thread_fields(2) [of ext cfg "new_ServerPrivate ext cfg" "fst p" "snd p"]
    by (cases p) (auto simp: Server_ctor_def one_thread_def new_ServerPrivate_def Let_def
        AddRecordPlugin_def CreateEntities_def SetUpdatePeriod_def update_runner_def
        split: option.splits)
qed

subsection \<open>The running flag\<close>

lemma Run_keeps_running:
  "Run ext blocking n paused s = Some (b, s') \<Longrightarrow> running s \<Longrightarrow> running s'"
  by (auto simp: Run_def Let_def split: if_splits)

lemma invoke_keeps_running:
  "invoke ext c s = Some s' \<Longrightarrow> c \<noteq> Call_Stop \<Longrightarrow> c \<noteq> Thread_body_returns \<Longrightarrow>
   running s \<Longrightarrow> running s'"
proof (cases c)
  case (Call_Run blocking n paused)
  then show "invoke ext c s = Some s' \<Longrightarrow> running s \<Longrightarrow> running s'"
    by (auto dest: Run_keeps_running)
next
  case (Call_RunOnce paused)
  then show "invoke ext c s = Some s' \<Longrightarrow> running s \<Longrightarrow> running s'"
    by (auto simp: RunOnce_def split: if_splits dest!: Run_keeps_running)
next
  case Call_Stop
  then show "c \<noteq> Call_Stop \<Longrightarrow> running s'" by simp
next
  case (Call_SetUpdatePeriod d i)
  then show "invoke ext c s = Some s' \<Longrightarrow> running s \<Longrightarrow> running s'"
    by (auto simp: SetUpdatePeriod_def update_runner_def split: if_splits)
next
  case (Call_SetPaused p i)
  then show "invoke ext c s = Some s' \<Longrightarrow> running s \<Longrightarrow> running s'"
    by (auto simp: SetPaused_def update_runner_def split: if_splits)
next
  case (Call_AddSystem sys i)
  then show "invoke ext c s = Some s' \<Longrightarrow> running s \<Longrightarrow> running s'"
    by (auto simp: AddSystem_def update_runner_def split: if_splits)
next
  case (Call_RequestRemoveEntity_name n recursive i)
  then show "invoke ext c s = Some s' \<Longrightarrow> running s \<Longrightarrow> running s'"
    by (auto simp: RequestRemoveEntity_name_def update_runner_def split: if_splits prod.splits)
next
  case (Call_RequestRemoveEntity_entity e recursive i)
  then show "invoke ext c s = Some s' \<Longrightarrow> running s \<Longrightarrow> running s'"
    by (auto simp: RequestRemoveEntity_entity_def update_runner_def split: if_splits prod.splits)
next
  case Thread_body_returns
  then show "c \<noteq> Thread_body_returns \<Longrightarrow> running s'" by simp
qed

lemma invoke_all_keeps_running:
  "invoke_all ext cs s = Some s' \<Longrightarrow> Call_Stop \<notin> set cs \<Longrightarrow>
   Thread_body_returns \<notin> set cs \<Longrightarrow> running s \<Longrightarrow> running s'"
proof (induction cs arbitrary: s)
  case Nil
  then show ?case by simp
next
  case (Cons c cs)
  from Cons.prems(1) obtain s1 where
    1: "invoke ext c s = Some s1" and 2: "invoke_all ext cs s1 = Some s'"
    by (auto split: option.splits)
  from 1 Cons.prems have "running s1" by (auto intro: invoke_keeps_running)
  with 2 Cons.prems show ?case by (auto intro: Cons.IH)
qed

subsection \<open>The concrete servers\<close>

lemma demo_server_constructed: "Server_ctor demo_ext demo_config = (Constructed, demo_server)"
  by (simp add: Server_ctor_def load_source_def new_ServerPrivate_def demo_ext_def
      demo_config_def demo_server_def CreateEntities_def demo_world_root_def)

lemma demo_server_three_runs:
  "invoke_all demo_ext three_runs demo_server = Some after_three_runs"
  by (simp add: three_runs_def after_three_runs_def demo_server_def Run_def Let_def
      runThread_body_returns_def demo_ext_def demo_loop_def Runner_SetPaused_def
      demo_runner_def)

lemma missing_file_calls:
  "invoke_all demo_ext calls_after_failure (snd (Server_ctor demo_ext missing_config))
     = Some after_failure"
  by (simp add: calls_after_failure_def after_failure_def Server_ctor_def load_source_def
      missing_config_def demo_config_def demo_ext_def new_ServerPrivate_def Run_def Let_def
      AddSystem_def Stop_def)

lemma demo_server_started:
  "Run demo_ext False 2 False demo_server = Some (True, started_server)"
  by (simp add: Run_def Let_def demo_server_def started_server_def demo_ext_def
      Runner_SetPaused_def demo_runner_def)

lemma started_server_calls:
  "invoke_all demo_ext [Call_Run True 1 True, Call_SetPaused False 0] started_server
     = Some started_server"
  by (simp add: Run_def Let_def demo_server_def started_server_def SetPaused_def in_range_def
      update_runner_def runner_at_def Runner_SetPaused_def demo_runner_def)

section \<open>The claims\<close>

text \<open>
  Claim C1, as amended. For a world index that is greater than or equal to the number of
  runners, the methods that return \<^verbatim>\<open>std::optional\<close> (\<^verbatim>\<open>Running(index)\<close>, \<^verbatim>\<open>Paused\<close>,
  \<^verbatim>\<open>IterationCount\<close>, \<^verbatim>\<open>EntityCount\<close>, \<^verbatim>\<open>SystemCount\<close>, \<^verbatim>\<open>EntityByName\<close>) return
  \<^verbatim>\<open>std::nullopt\<close>; \<^verbatim>\<open>HasEntity\<close>, both overloads of \<^verbatim>\<open>RequestRemoveEntity\<close> and \<^verbatim>\<open>SetPaused\<close>
  return the plain \<^verbatim>\<open>bool\<close> \<^verbatim>\<open>false\<close>, and \<^verbatim>\<open>SetUpdatePeriod\<close> returns nothing; none of
  them changes the state.
\<close>

theorem out_of_range_results:
  "length (simRunners s) \<le> unat i \<Longrightarrow>
     Running_world i s = None \<and> Paused i s = None \<and> IterationCount i s = None \<and>
     EntityCount i s = None \<and> SystemCount i s = None \<and> EntityByName n i s = None \<and>
     HasEntity n i s = False \<and>
     RequestRemoveEntity_name n recursive i s = (False, s) \<and>
     RequestRemoveEntity_entity e recursive i s = (False, s) \<and>
     SetPaused p i s = (False, s) \<and>
     SetUpdatePeriod d i s = s"
  by (simp add: in_range_def Running_world_def Paused_def IterationCount_def EntityCount_def
      SystemCount_def EntityByName_def HasEntity_def RequestRemoveEntity_name_def
      RequestRemoveEntity_entity_def SetPaused_def SetUpdatePeriod_def)

theorem out_of_range_results_witness:
  "length (simRunners demo_server) \<le> unat (1 :: world_index) \<and>
     Running_world 1 demo_server = None \<and> Paused 1 demo_server = None \<and>
     IterationCount 1 demo_server = None \<and>
     EntityCount 1 demo_server = None \<and> SystemCount 1 demo_server = None \<and>
     EntityByName ''default'' 1 demo_server = None \<and>
     HasEntity ''default'' 1 demo_server = False \<and>
     RequestRemoveEntity_name ''default'' True 1 demo_server = (False, demo_server) \<and>
     RequestRemoveEntity_entity 1 True 1 demo_server = (False, demo_server) \<and>
     SetPaused True 1 demo_server = (False, demo_server) \<and>
     SetUpdatePeriod 5 1 demo_server = demo_server"
proof -
  have h: "length (simRunners demo_server) \<le> unat (1 :: world_index)"
    by (simp add: demo_server_def)
  show ?thesis
    using h out_of_range_results [OF h, of "''default''" True 1 True 5] by simp
qed

text \<open>
  Claim C1 as stated fails: on a server with one world, \<^verbatim>\<open>HasEntity\<close> and
  \<^verbatim>\<open>RequestRemoveEntity\<close> answer the missing world 1 with the same \<^verbatim>\<open>false\<close> with which
  they answer the existing world 0 for an entity that it does not have.
\<close>

theorem out_of_range_bool_counterexample:
  "\<not> in_range 1 demo_server \<and> HasEntity ''box'' 1 demo_server = False \<and>
   in_range 0 demo_server \<and> HasEntity ''box'' 0 demo_server = False \<and>
   fst (RequestRemoveEntity_name ''box'' True 1 demo_server) = False \<and>
   fst (RequestRemoveEntity_name ''box'' True 0 demo_server) = False"
  by (simp add: in_range_def HasEntity_def demo_server_def runner_at_def Runner_HasEntity_def
      Runner_EntityByName_def demo_runner_def demo_world_def RequestRemoveEntity_name_def
      Runner_RequestRemoveEntity_name_def)

text \<open>
  Claim C2, as amended. When the signal handlers were not initialized, \<^verbatim>\<open>Run\<close> returns
  \<^verbatim>\<open>false\<close>, and the state it leaves differs from the one it found only in the pause
  flag of every runner, which is set to \<^verbatim>\<open>_paused\<close>: the loop of lines 212-213 runs
  before the checks.
\<close>

theorem Run_without_signal_handlers:
  "\<not> sigInitialized s \<Longrightarrow>
     Run ext blocking n paused s =
       Some (False, s\<lparr> simRunners := map (Runner_SetPaused paused) (simRunners s) \<rparr>)"
  by (simp add: Run_def Let_def for_each_map)

theorem Run_without_signal_handlers_witness:
  "\<not> sigInitialized no_signal_server \<and>
   Run demo_ext True 1 True no_signal_server =
     Some (False, no_signal_server
        \<lparr> simRunners := map (Runner_SetPaused True) (simRunners no_signal_server) \<rparr>)"
proof -
  have h: "\<not> sigInitialized no_signal_server"
    by (simp add: no_signal_server_def)
  show ?thesis
    using h Run_without_signal_handlers [OF h, of demo_ext True 1 True] by simp
qed

text \<open>
  Claim C2 as stated fails: without signal handlers, \<^verbatim>\<open>Run(true, 1, true)\<close> returns
  \<^verbatim>\<open>false\<close> and world 0, which was not paused before the call, is paused after it.
\<close>

theorem Run_without_signal_handlers_counterexample:
  "\<not> sigInitialized no_signal_server \<and>
   Paused 0 no_signal_server = Some False \<and>
   map_option fst (Run demo_ext True 1 True no_signal_server) = Some False \<and>
   map_option (Paused 0 \<circ> snd) (Run demo_ext True 1 True no_signal_server) = Some (Some True)"
  by (simp add: Run_def Let_def no_signal_server_def demo_server_def Paused_def in_range_def
      runner_at_def Runner_Paused_def Runner_SetPaused_def demo_runner_def)

text \<open>
  Claim C3. In every state that a constructed server reaches through any sequence of
  calls, at most one thread has been created; and a \<^verbatim>\<open>Run\<close> call, blocking or not, on a
  server whose \<^verbatim>\<open>running\<close> flag is set returns \<^verbatim>\<open>false\<close> and leaves the state as it was up
  to the pause flags: no thread is created.
\<close>

theorem single_background_thread:
  "(invoke_all ext calls (snd (Server_ctor ext cfg)) = Some s \<longrightarrow> threadsCreated s \<le> 1) \<and>
   (running t \<longrightarrow>
      Run ext blocking n paused t
        = Some (False, t\<lparr> simRunners := map (Runner_SetPaused paused) (simRunners t) \<rparr>))"
proof (intro conjI impI)
  assume "invoke_all ext calls (snd (Server_ctor ext cfg)) = Some s"
  then have "one_thread s" using ctor_one_thread by (rule invoke_all_one_thread)
  then show "threadsCreated s \<le> 1" by (simp add: one_thread_def)
next
  assume "running t"
  then show "Run ext blocking n paused t
        = Some (False, t\<lparr> simRunners := map (Runner_SetPaused paused) (simRunners t) \<rparr>)"
    by (simp add: Run_def Let_def for_each_map)
qed

theorem single_background_thread_witness:
  "invoke_all demo_ext three_runs (snd (Server_ctor demo_ext demo_config)) = Some after_three_runs \<and>
   threadsCreated after_three_runs \<le> 1 \<and>
   running started_server \<and>
   Run demo_ext False 7 False started_server
     = Some (False, started_server
          \<lparr> simRunners := map (Runner_SetPaused False) (simRunners started_server) \<rparr>)"
proof -
  have a: "invoke_all demo_ext three_runs (snd (Server_ctor demo_ext demo_config))
             = Some after_three_runs"
    by (simp add: demo_server_constructed demo_server_three_runs)
  have b: "running started_server" by (simp add: started_server_def)
  show ?thesis
    using a b single_background_thread
      [of demo_ext three_runs demo_config after_three_runs started_server False 7 False]
    by simp
qed

text \<open>
  Claim C4, as amended. A successful non-blocking \<^verbatim>\<open>Run\<close> returns in a state in which the
  body of the background thread has set \<^verbatim>\<open>running\<close>, and \<^verbatim>\<open>Running()\<close> stays true through
  every later call until \<^verbatim>\<open>Stop\<close> is called or the body of the thread returns.
\<close>

theorem nonblocking_Run_handshake:
  assumes "Run ext False n paused s = Some (True, s1)"
    and "invoke_all ext cs s1 = Some s2"
    and "Call_Stop \<notin> set cs" and "Thread_body_returns \<notin> set cs"
  shows "Running s1 \<and> runThread s1 = BodyRunning n \<and> Running s2"
proof -
  from assms(1) have r: "running s1" and t: "runThread s1 = BodyRunning n"
    by (auto simp: Run_def Let_def split: if_splits)
  from assms(2-4) r have "running s2" by (rule invoke_all_keeps_running)
  with r t show ?thesis by (simp add: Running_def)
qed

theorem nonblocking_Run_handshake_witness:
  "Run demo_ext False 2 False demo_server = Some (True, started_server) \<and>
   invoke_all demo_ext [Call_Run True 1 True, Call_SetPaused False 0] started_server
     = Some started_server \<and>
   Call_Stop \<notin> set [Call_Run True 1 True, Call_SetPaused False 0] \<and>
   Thread_body_returns \<notin> set [Call_Run True 1 True, Call_SetPaused False 0] \<and>
   Running started_server \<and> runThread started_server = BodyRunning 2"
proof -
  have c: "Call_Stop \<notin> set [Call_Run True 1 True, Call_SetPaused False 0]"
    and d: "Thread_body_returns \<notin> set [Call_Run True 1 True, Call_SetPaused False 0]"
    by simp_all
  show ?thesis
    using nonblocking_Run_handshake [OF demo_server_started started_server_calls c d]
      demo_server_started started_server_calls
    by simp
qed

text \<open>
  Claim C4 as stated fails: after a successful \<^verbatim>\<open>Run(false, 1, false)\<close> the body of the
  thread can return before the caller asks, and \<^verbatim>\<open>Running()\<close> is then false.
\<close>

theorem nonblocking_Run_counterexample:
  "map_option fst (Run demo_ext False 1 False demo_server) = Some True \<and>
   map_option Running (invoke_all demo_ext [Call_Run False 1 False] demo_server) = Some True \<and>
   map_option Running
      (invoke_all demo_ext [Call_Run False 1 False, Thread_body_returns] demo_server)
     = Some False"
  by (simp add: Run_def Let_def demo_server_def runThread_body_returns_def demo_ext_def
      demo_loop_def Running_def Runner_SetPaused_def demo_runner_def)

text \<open>
  Claim C5, as amended. When the configured file is found and parses without errors to a
  bare model, the default-world string parses without errors to one empty world, and
  the re-validation of the composed graph reports no error, the constructed server has
  exactly one world, at index 0, whose only model is the model of the file, and one
  runner, created from that world.
\<close>

theorem bare_model_file:
  assumes "cfg_Source cfg = kSdfFile"
    and "resolveSdfWorldFile ext (cfg_SdfFile cfg) (cfg_ResourceCache cfg) = filePath"
    and "filePath \<noteq> []"
    and "sdf_Load ext filePath = ([], fileRoot)"
    and "root_model fileRoot = Some m"
    and "sdf_LoadSdfString ext DefaultWorld = ([], defaultRoot)"
    and "worlds defaultRoot = [w]"
    and "w_models w = []"
    and "sdf_UpdateGraphs ext (AddModel_world0 m defaultRoot) = []"
  shows "\<exists>s w'. Server_ctor ext cfg = (Constructed, s) \<and>
     worlds (sdfRoot s) = [w'] \<and> w_name w' = w_name w \<and> w_models w' = [m] \<and>
     simRunners s = [case cfg_UpdatePeriod cfg of
                       None \<Rightarrow> Runner_create ext w'
                     | Some d \<Rightarrow> Runner_SetUpdatePeriod d (Runner_create ext w')] \<and>
     in_range 0 s \<and> \<not> in_range 1 s"
proof -
  have l: "load_source ext cfg (new_ServerPrivate ext cfg)
      = Inr ([], (new_ServerPrivate ext cfg)\<lparr> sdfRoot := AddModel_world0 m defaultRoot \<rparr>)"
    using assms by (simp add: load_source_def WorldByIndex0_def)
  have a: "AddModel_world0 m defaultRoot = defaultRoot\<lparr> worlds := [w\<lparr> w_models := [m] \<rparr>] \<rparr>"
    using assms(7,8) by (simp add: AddModel_world0_def)
  show ?thesis
    using l a
    by (cases "cfg_UpdatePeriod cfg"; cases "cfg_UseLogRecord cfg")
      (simp_all add: Server_ctor_def new_ServerPrivate_def AddRecordPlugin_def CreateEntities_def
        SetUpdatePeriod_def in_range_def update_runner_def runner_at_def)
qed

theorem bare_model_file_witness:
  "cfg_Source box_config = kSdfFile \<and>
   resolveSdfWorldFile demo_ext (cfg_SdfFile box_config) (cfg_ResourceCache box_config)
     = ''/models/box.sdf'' \<and>
   ''/models/box.sdf'' \<noteq> [] \<and>
   sdf_Load demo_ext ''/models/box.sdf'' = ([], demo_model_root) \<and>
   root_model demo_model_root = Some \<lparr> m_name = ''box'' \<rparr> \<and>
   sdf_LoadSdfString demo_ext DefaultWorld = ([], demo_world_root) \<and>
   worlds demo_world_root = [demo_world] \<and>
   w_models demo_world = [] \<and>
   sdf_UpdateGraphs demo_ext (AddModel_world0 \<lparr> m_name = ''box'' \<rparr> demo_world_root) = [] \<and>
   (\<exists>s w'. Server_ctor demo_ext box_config = (Constructed, s) \<and>
     worlds (sdfRoot s) = [w'] \<and> w_name w' = ''default'' \<and> w_models w' = [\<lparr> m_name = ''box'' \<rparr>] \<and>
     simRunners s = [demo_runner w'] \<and> in_range 0 s \<and> \<not> in_range 1 s)"
proof -
  have 1: "cfg_Source box_config = kSdfFile"
    and 2: "resolveSdfWorldFile demo_ext (cfg_SdfFile box_config) (cfg_ResourceCache box_config)
              = ''/models/box.sdf''"
    and 3: "''/models/box.sdf'' \<noteq> []"
    and 4: "sdf_Load demo_ext ''/models/box.sdf'' = ([], demo_model_root)"
    and 5: "root_model demo_model_root = Some \<lparr> m_name = ''box'' \<rparr>"
    and 6: "sdf_LoadSdfString demo_ext DefaultWorld = ([], demo_world_root)"
    and 7: "worlds demo_world_root = [demo_world]"
    and 8: "w_models demo_world = []"
    and 9: "sdf_UpdateGraphs demo_ext (AddModel_world0 \<lparr> m_name = ''box'' \<rparr> demo_world_root) = []"
    by (simp_all add: box_config_def demo_config_def demo_ext_def demo_model_root_def
        demo_world_root_def demo_world_def)
  have u: "cfg_UpdatePeriod box_config = None"
    by (simp add: box_config_def demo_config_def)
  have n: "w_name demo_world = ''default''" by (simp add: demo_world_def)
  have c: "Runner_create demo_ext = demo_runner" by (simp add: demo_ext_def)
  show ?thesis
    using bare_model_file [OF 1 2 3 4 5 6 7 8 9] 1 2 3 4 5 6 7 8 9
    by (simp add: u n c)
qed

text \<open>
  Claim C5 as stated fails: the file is found and parses without errors to the bare
  model \<open>box\<close>, the re-validation of the composed graph reports an error, and the
  constructor returns at line 182 before any runner is created: index 0 is not valid.
\<close>

theorem bare_model_file_counterexample:
  "cfg_Source box_config = kSdfFile \<and>
   resolveSdfWorldFile failing_graph_ext (cfg_SdfFile box_config) (cfg_ResourceCache box_config)
     = ''/models/box.sdf'' \<and>
   sdf_Load failing_graph_ext ''/models/box.sdf'' = ([], demo_model_root) \<and>
   root_model demo_model_root = Some \<lparr> m_name = ''box'' \<rparr> \<and>
   worlds demo_model_root = [] \<and>
   fst (Server_ctor failing_graph_ext box_config) = SdfErrors [''graph error''] \<and>
   simRunners (snd (Server_ctor failing_graph_ext box_config)) = [] \<and>
   \<not> in_range 0 (snd (Server_ctor failing_graph_ext box_config))"
  by (simp add: box_config_def failing_graph_ext_def demo_ext_def demo_config_def
      demo_model_root_def demo_world_root_def demo_world_def Server_ctor_def load_source_def
      new_ServerPrivate_def WorldByIndex0_def AddModel_world0_def in_range_def)

text \<open>
  Claim C6. While \<^verbatim>\<open>running\<close> is set, both overloads of \<^verbatim>\<open>AddSystem\<close> return the value
  \<^verbatim>\<open>false\<close> (not \<^verbatim>\<open>std::nullopt\<close>) and change nothing; after \<^verbatim>\<open>Stop\<close> the same call with a
  valid world index returns \<^verbatim>\<open>true\<close> and the system is added to the runner of that world.
\<close>

theorem AddSystem_rejected_while_running:
  "running s \<Longrightarrow>
     AddSystem_plugin p i s = (Some False, s) \<and> AddSystem_shared q i s = (Some False, s) \<and>
     (in_range i s \<longrightarrow>
        AddSystem_plugin p i (Stop s)
          = (Some True,
             update_runner i (Runner_AddSystem (PluginSystem p) (runner_at i (Stop s))) (Stop s)) \<and>
        AddSystem_shared q i (Stop s)
          = (Some True,
             update_runner i (Runner_AddSystem (SharedSystem q) (runner_at i (Stop s))) (Stop s)))"
  by (simp add: AddSystem_plugin_def AddSystem_shared_def AddSystem_def Stop_def in_range_def
      for_each_map)

theorem AddSystem_rejected_while_running_witness:
  "running running_server \<and>
   AddSystem_plugin 4 0 running_server = (Some False, running_server) \<and>
   AddSystem_shared 5 0 running_server = (Some False, running_server) \<and>
   in_range 0 running_server \<and>
   fst (AddSystem_plugin 4 0 (Stop running_server)) = Some True \<and>
   fst (AddSystem_shared 5 0 (Stop running_server)) = Some True \<and>
   SystemCount 0 (snd (AddSystem_plugin 4 0 (Stop running_server))) = Some 1"
proof -
  have r: "running running_server" by (simp add: running_server_def)
  have i: "in_range 0 running_server"
    by (simp add: in_range_def running_server_def demo_server_def)
  show ?thesis
    using r i AddSystem_rejected_while_running [OF r, of 4 0 5]
    by (simp add: SystemCount_def in_range_def update_runner_def runner_at_def Stop_def
        Runner_SystemCount_def Runner_AddSystem_def Runner_Stop_def running_server_def
        demo_server_def demo_runner_def)
qed

text \<open>
  Claim C7, as amended. When the configured file cannot be located, the constructor
  returns at line 133 with the state of a fresh \<^verbatim>\<open>ServerPrivate\<close>: nothing was parsed and
  no runner was created. In every state reached from there by any sequence of calls
  there is still no runner, and every call that takes a world index returns
  \<^verbatim>\<open>std::nullopt\<close> or \<^verbatim>\<open>false\<close> (or nothing, for \<^verbatim>\<open>SetUpdatePeriod\<close>) and changes nothing.
  Nothing is said about \<^verbatim>\<open>Run\<close>, which does not look at the number of runners.
\<close>

theorem world_file_not_found:
  assumes "cfg_Source cfg = kSdfFile"
    and "resolveSdfWorldFile ext (cfg_SdfFile cfg) (cfg_ResourceCache cfg) = []"
    and "invoke_all ext calls (snd (Server_ctor ext cfg)) = Some s"
  shows "Server_ctor ext cfg = (WorldNotFound (cfg_SdfFile cfg), new_ServerPrivate ext cfg) \<and>
     simRunners (new_ServerPrivate ext cfg) = [] \<and>
     sdfRoot (new_ServerPrivate ext cfg) = empty_Root \<and>
     simRunners s = [] \<and>
     Running_world i s = None \<and> Paused i s = None \<and> IterationCount i s = None \<and>
     EntityCount i s = None \<and> SystemCount i s = None \<and> EntityByName n i s = None \<and>
     HasEntity n i s = False \<and>
     RequestRemoveEntity_name n recursive i s = (False, s) \<and>
     RequestRemoveEntity_entity e recursive i s = (False, s) \<and>
     SetPaused p i s = (False, s) \<and>
     SetUpdatePeriod d i s = s \<and>
     AddSystem sys i s = (if running s then Some False else None, s)"
proof -
  have c: "Server_ctor ext cfg = (WorldNotFound (cfg_SdfFile cfg), new_ServerPrivate ext cfg)"
    using assms(1,2) by (simp add: Server_ctor_def load_source_def)
  with assms(3) have "length (simRunners s) = length (simRunners (new_ServerPrivate ext cfg))"
    by (auto dest: invoke_all_length)
  then have e: "simRunners s = []" by (simp add: new_ServerPrivate_def)
  then have r: "\<not> in_range i s" by (simp add: in_range_def)
  show ?thesis
    using c e r
    by (simp add: new_ServerPrivate_def Running_world_def Paused_def IterationCount_def
        EntityCount_def SystemCount_def EntityByName_def HasEntity_def
        RequestRemoveEntity_name_def RequestRemoveEntity_entity_def SetPaused_def
        SetUpdatePeriod_def AddSystem_def)
qed

theorem world_file_not_found_witness:
  "cfg_Source missing_config = kSdfFile \<and>
   resolveSdfWorldFile demo_ext (cfg_SdfFile missing_config) (cfg_ResourceCache missing_config)
     = [] \<and>
   invoke_all demo_ext calls_after_failure (snd (Server_ctor demo_ext missing_config))
     = Some after_failure \<and>
   Server_ctor demo_ext missing_config
     = (WorldNotFound ''nope.sdf'', new_ServerPrivate demo_ext missing_config) \<and>
   simRunners after_failure = [] \<and>
   Running_world 0 after_failure = None \<and> Paused 0 after_failure = None \<and>
   IterationCount 0 after_failure = None \<and> EntityCount 0 after_failure = None \<and>
   SystemCount 0 after_failure = None \<and> EntityByName ''default'' 0 after_failure = None \<and>
   HasEntity ''default'' 0 after_failure = False \<and>
   RequestRemoveEntity_name ''default'' True 0 after_failure = (False, after_failure) \<and>
   RequestRemoveEntity_entity 1 True 0 after_failure = (False, after_failure) \<and>
   SetPaused True 0 after_failure = (False, after_failure) \<and>
   SetUpdatePeriod 5 0 after_failure = after_failure \<and>
   AddSystem (PluginSystem 9) 0 after_failure = (None, after_failure)"
proof -
  have 1: "cfg_Source missing_config = kSdfFile"
    and 2: "resolveSdfWorldFile demo_ext (cfg_SdfFile missing_config)
              (cfg_ResourceCache missing_config) = []"
    and f: "cfg_SdfFile missing_config = ''nope.sdf''"
    by (simp_all add: missing_config_def demo_config_def demo_ext_def)
  have r: "\<not> running after_failure"
    by (simp add: after_failure_def new_ServerPrivate_def)
  show ?thesis
    using world_file_not_found [OF 1 2 missing_file_calls,
        of 0 "''default''" True 1 True 5 "PluginSystem 9"] 1 2 missing_file_calls
    by (simp add: f r)
qed

text \<open>
  Claim C7 as stated fails: the instance whose world file was not found is not left
  non-runnable. With signal handlers, \<^verbatim>\<open>Run(false, 2, false)\<close> on it passes the checks of
  lines 216-230, creates the background thread and returns \<^verbatim>\<open>true\<close> with \<^verbatim>\<open>Running()\<close>
  true, although there is no world to step; a blocking \<^verbatim>\<open>Run\<close> returns \<^verbatim>\<open>true\<close> as well.
\<close>

theorem world_file_not_found_counterexample:
  "cfg_Source missing_config = kSdfFile \<and>
   resolveSdfWorldFile demo_ext (cfg_SdfFile missing_config) (cfg_ResourceCache missing_config)
     = [] \<and>
   fst (Server_ctor demo_ext missing_config) = WorldNotFound ''nope.sdf'' \<and>
   simRunners (snd (Server_ctor demo_ext missing_config)) = [] \<and>
   map_option fst (Run demo_ext False 2 False (snd (Server_ctor demo_ext missing_config)))
     = Some True \<and>
   map_option (Running \<circ> snd)
      (Run demo_ext False 2 False (snd (Server_ctor demo_ext missing_config))) = Some True \<and>
   map_option (threadsCreated \<circ> snd)
      (Run demo_ext False 2 False (snd (Server_ctor demo_ext missing_config))) = Some 1 \<and>
   map_option fst (Run demo_ext True 2 False (snd (Server_ctor demo_ext missing_config)))
     = Some True"
  by (simp add: Server_ctor_def load_source_def missing_config_def demo_config_def demo_ext_def
      new_ServerPrivate_def Run_def Let_def ServerPrivate_Run_def Running_def)

text \<open>
  Claim C8. \<^verbatim>\<open>RunOnce(paused)\<close> as written in the source computes what the description of
  the specification computes: with \<^verbatim>\<open>paused\<close>, every runner's next step is first marked
  as a blocking-paused step; then the result is that of the blocking \<^verbatim>\<open>Run\<close> with one
  iteration and the same flag.
\<close>

theorem RunOnce_refines_spec: "RunOnce ext paused s = RunOnce_spec ext paused s"
proof -
  have mark: "for_each (Runner_SetNextStepAsBlockingPaused True) rs
                = map (\<lambda>r. r\<lparr> r_nextStepBlockingPaused := True \<rparr>) rs" for rs
    by (induction rs) (simp_all add: Runner_SetNextStepAsBlockingPaused_def)
  show ?thesis
  proof (cases paused)
    case True
    then show ?thesis
      by (simp add: RunOnce_def RunOnce_spec_def mark_next_step_blocking_paused_def mark)
  next
    case False
    then show ?thesis by (simp add: RunOnce_def RunOnce_spec_def)
  qed
qed

text \<open>
  Claim C9. While \<^verbatim>\<open>running\<close> is set, both overloads of \<^verbatim>\<open>AddSystem\<close> return \<^verbatim>\<open>false\<close> for
  every world index, in range or not: the caller never receives \<^verbatim>\<open>std::nullopt\<close>.
\<close>

theorem AddSystem_running_checked_first:
  "running s \<Longrightarrow>
     fst (AddSystem_plugin p i s) = Some False \<and> fst (AddSystem_shared q i s) = Some False \<and>
     fst (AddSystem_plugin p i s) \<noteq> None \<and> fst (AddSystem_shared q i s) \<noteq> None"
  by (simp add: AddSystem_plugin_def AddSystem_shared_def AddSystem_def)

theorem AddSystem_running_checked_first_witness:
  "running running_server \<and> \<not> in_range 7 running_server \<and>
     fst (AddSystem_plugin 0 7 running_server) = Some False \<and>
     fst (AddSystem_shared 0 7 running_server) = Some False \<and>
     fst (AddSystem_plugin 0 7 running_server) \<noteq> None \<and>
     fst (AddSystem_shared 0 7 running_server) \<noteq> None"
proof -
  have r: "running running_server" by (simp add: running_server_def)
  show ?thesis
    using r AddSystem_running_checked_first [OF r, of 0 7 0]
    by (simp add: in_range_def running_server_def demo_server_def)
qed

text \<open>
  Claim C10. For a world index that is out of range, \<^verbatim>\<open>SetUpdatePeriod\<close>, whose only
  result is the state, leaves the state as it was; in particular the update period of
  every runner is unchanged.
\<close>

theorem SetUpdatePeriod_out_of_range:
  "length (simRunners s) \<le> unat i \<Longrightarrow>
     SetUpdatePeriod d i s = s \<and>
     map r_updatePeriod (simRunners (SetUpdatePeriod d i s)) = map r_updatePeriod (simRunners s)"
  by (simp add: SetUpdatePeriod_def in_range_def)

theorem SetUpdatePeriod_out_of_range_witness:
  "length (simRunners demo_server) \<le> unat (1 :: world_index) \<and>
     SetUpdatePeriod 5 1 demo_server = demo_server \<and>
     map r_updatePeriod (simRunners (SetUpdatePeriod 5 1 demo_server))
       = map r_updatePeriod (simRunners demo_server)"
proof -
  have h: "length (simRunners demo_server) \<le> unat (1 :: world_index)"
    by (simp add: demo_server_def)
  show ?thesis using h SetUpdatePeriod_out_of_range [OF h, of 5] by simp
qed

end
